theory Spec2Isabelle
  imports Main "HOL-Library.AList"
begin

section \<open>Data model\<close>

text \<open>
  The planning-poker client keeps all of its state in the React state variables of the
  component \<open>PlanningPokerApp\<close>. A JavaScript object used as a dictionary
  (\<open>Record<string, User>\<close>) is an association list of its own properties, with distinct
  keys, in the order the object enumerates them. Every such object is created with
  \<open>Object.prototype\<close> as its prototype; what a read or an assignment finds along the
  prototype chain is written out in \<open>obj_read\<close> and \<open>obj_assign\<close> below.
\<close>

type_synonym 'v obj = "(string \<times> 'v) list"

record User =
  user_id :: string
  name :: string
  vote :: "string option"

text \<open>
  A value stored in \<open>users\<close>. The declared type is \<open>User\<close>, but the \<open>VoteReceived\<close>
  handler can store an object that has a \<open>vote\<close> and neither \<open>id\<close> nor \<open>name\<close>.
\<close>

datatype Entry = Participant User | VoteOnly "string option"

record Room =
  room_id :: string
  users :: "Entry obj"

text \<open>
  The payload of the \<open>UserJoined\<close> event. The handler guards against a payload without
  \<open>users\<close> (\<open>updatedRoomData.users || {}\<close>), so the field is optional here.
\<close>

record RoomPatch =
  patch_id :: string
  patch_users :: "Entry obj option"

datatype Page = createJoin | planningPoker

datatype HubConnection = HubConnection nat

record app_state =
  currentPage :: Page
  roomId :: "string option"
  user :: "User option"
  room :: "Room option"
  hubConnection :: "HubConnection option"
  selectedVote :: "string option"
  error :: "string option"
  isVoting :: bool
  isLoading :: bool
  showVotesState :: bool

text \<open>The values given to \<open>useState\<close> on the first render.\<close>

definition initial_state :: app_state where
  "initial_state =
     \<lparr>currentPage = createJoin, roomId = None, user = None, room = None,
      hubConnection = None, selectedVote = None, error = None,
      isVoting = True, isLoading = False, showVotesState = False\<rparr>"

text \<open>
  The vote visibility state of the specification, read off the two flags of the code:
  votes are shown exactly when \<open>showVotesState\<close> holds, and \<open>canVote\<close> is \<open>isVoting\<close>.
\<close>

datatype Visibility = Collecting | Revealed

definition visibility :: "app_state \<Rightarrow> Visibility" where
  "visibility s = (if showVotesState s then Revealed else Collecting)"

definition canVote :: "app_state \<Rightarrow> bool" where
  "canVote s = isVoting s"

section \<open>JavaScript helpers\<close>

text \<open>Truthiness of a \<open>string | null\<close>: \<open>null\<close> and the empty string are falsy.\<close>

definition truthy :: "string option \<Rightarrow> bool" where
  "truthy x = (case x of None \<Rightarrow> False | Some v \<Rightarrow> v \<noteq> [])"

text \<open>Object spread \<open>{ ...a, ...b }\<close>: the entries of \<open>b\<close> are assigned onto a copy of \<open>a\<close>.\<close>

definition obj_spread :: "'v obj \<Rightarrow> 'v obj \<Rightarrow> 'v obj" where
  "obj_spread a b = foldl (\<lambda>acc kv. AList.update (fst kv) (snd kv) acc) a b"

text \<open>\<open>u.vote\<close> of a stored value, and the copy \<open>{ ...u, vote: x }\<close>.\<close>

definition entry_vote :: "Entry \<Rightarrow> string option" where
  "entry_vote e = (case e of Participant u \<Rightarrow> vote u | VoteOnly x \<Rightarrow> x)"

definition set_vote :: "string option \<Rightarrow> Entry \<Rightarrow> Entry" where
  "set_vote x e = (case e of Participant u \<Rightarrow> Participant (u\<lparr>vote := x\<rparr>) | VoteOnly y \<Rightarrow> VoteOnly x)"

text \<open>
  The property names of \<open>Object.prototype\<close>. All of them are writable methods, except
  \<open>__proto__\<close>, which is an accessor: reading it gives the prototype and assigning to it
  replaces the prototype.
\<close>

definition Object_prototype_names :: "string list" where
  "Object_prototype_names =
     [''constructor'', ''__defineGetter__'', ''__defineSetter__'', ''hasOwnProperty'',
      ''__lookupGetter__'', ''__lookupSetter__'', ''isPrototypeOf'', ''propertyIsEnumerable'',
      ''toString'', ''valueOf'', ''__proto__'', ''toLocaleString'']"

text \<open>
  The read \<open>a[k]\<close> on an object whose prototype is \<open>Object.prototype\<close>: an own property
  gives its value; otherwise a name of \<open>Object.prototype\<close> gives the inherited member, a
  truthy value with no enumerable own property; any other name gives \<open>undefined\<close>.
\<close>

datatype 'v Read = Own 'v | Inherited | Undefined

definition obj_read :: "'v obj \<Rightarrow> string \<Rightarrow> 'v Read" where
  "obj_read a k =
     (case map_of a k of
        Some v \<Rightarrow> Own v
      | None \<Rightarrow> if k \<in> set Object_prototype_names then Inherited else Undefined)"

text \<open>
  The assignment \<open>a[k] = v\<close>: an own property is overwritten in place; a new key becomes a
  new own property, last in the enumeration, except \<open>__proto__\<close>, for which the inherited
  setter replaces the prototype and no own property is made. The prototype set that way
  is a copy of a stored entry and is not represented: the handlers read a stored \<open>users\<close>
  object through a spread copy, through \<open>Object.values\<close>, or through a \<open>for-in\<close> loop
  filtered by \<open>hasOwnProperty\<close>, and none of these yields a property of that prototype.
\<close>

definition obj_assign :: "string \<Rightarrow> 'v \<Rightarrow> 'v obj \<Rightarrow> 'v obj" where
  "obj_assign k v a =
     (case map_of a k of
        Some old \<Rightarrow> AList.update k v a
      | None \<Rightarrow> if k = ''__proto__'' then a else a @ [(k, v)])"

text \<open>
  An exception thrown inside a state updater: no handler catches it, and the render that
  runs the updater fails.
\<close>

datatype Uncaught = TypeError

text \<open>\<open>Object.values\<close>.\<close>

definition obj_values :: "'v obj \<Rightarrow> 'v list" where
  "obj_values a = map snd a"

text \<open>The representation invariant of a dictionary object: no key occurs twice.\<close>

definition wf_obj :: "'v obj \<Rightarrow> bool" where
  "wf_obj a = distinct (map fst a)"

section \<open>Event reducer: the handlers registered on the hub connection\<close>

text \<open>
  \<open>connection.on('UserJoined', ...)\<close>. The room is updated through a functional update,
  so the handler reads the current replica. A payload without \<open>users\<close> that lands in an
  empty replica is stored as it is by the source; every later handler reads its missing
  \<open>users\<close> as no entries, which is how it is represented here.
\<close>

definition on_UserJoined :: "RoomPatch \<Rightarrow> string \<Rightarrow> app_state \<Rightarrow> app_state" where
  "on_UserJoined updatedRoomData joinedUserName s =
     s\<lparr>room :=
          (case room s of
             None \<Rightarrow>
               Some \<lparr>room_id = patch_id updatedRoomData,
                     users = (case patch_users updatedRoomData of None \<Rightarrow> [] | Some us \<Rightarrow> us)\<rparr>
           | Some prev \<Rightarrow>
               (let correctRoomId = room_id prev;
                    incomingUsers = (case patch_users updatedRoomData of None \<Rightarrow> [] | Some us \<Rightarrow> us);
                    mergedUsers = obj_spread (users prev) incomingUsers
                in Some \<lparr>room_id = correctRoomId, users = mergedUsers\<rparr>)),
       error := None\<rparr>"

text \<open>\<open>connection.on('UserLeft', ...)\<close>.\<close>

definition on_UserLeft :: "string \<Rightarrow> string \<Rightarrow> app_state \<Rightarrow> app_state" where
  "on_UserLeft userId leftUserName s =
     s\<lparr>room :=
          (case room s of
             None \<Rightarrow> None
           | Some prev \<Rightarrow> Some (prev\<lparr>users := AList.delete userId (users prev)\<rparr>))\<rparr>"

text \<open>
  \<open>connection.on('VoteReceived', ...)\<close>. \<open>updatedUsers[userId]\<close> is read on a fresh spread
  copy of \<open>prevRoom.users\<close> and tested for truthiness only. An own entry is truthy; so is
  an inherited member of \<open>Object.prototype\<close>, whose copy \<open>{ ...userToUpdate, vote }\<close> has
  the \<open>vote\<close> alone.
\<close>

definition on_VoteReceived :: "string \<Rightarrow> string \<Rightarrow> app_state \<Rightarrow> app_state" where
  "on_VoteReceived userId v s =
     s\<lparr>room :=
          (case room s of
             None \<Rightarrow> None
           | Some prevRoom \<Rightarrow>
               (case obj_read (users prevRoom) userId of
                  Own userToUpdate \<Rightarrow>
                    Some (prevRoom\<lparr>users :=
                            obj_assign userId (set_vote (Some v) userToUpdate) (users prevRoom)\<rparr>)
                | Inherited \<Rightarrow>
                    Some (prevRoom\<lparr>users :=
                            obj_assign userId (VoteOnly (Some v)) (users prevRoom)\<rparr>)
                | Undefined \<Rightarrow> Some prevRoom)),
       error := None\<rparr>"

text \<open>
  \<open>connection.on('VotesRevealed', ...)\<close>. The handler is created once, inside
  \<open>setupSignalR\<close>, and \<open>showVotesState\<close> in its body is the constant of the render in
  which that \<open>setupSignalR\<close> closure was made: the first argument \<open>c\<close> is that render's
  state. The new value is written with a plain \<open>setShowVotesState(!showVotesState)\<close>, not
  with a functional update.
\<close>

definition on_VotesRevealed :: "app_state \<Rightarrow> app_state \<Rightarrow> app_state" where
  "on_VotesRevealed c s =
     s\<lparr>isVoting := False, showVotesState := \<not> showVotesState c, error := None\<rparr>"

text \<open>
  \<open>connection.on('AllVotesCleared', ...)\<close>. The loop runs over the keys of
  \<open>prevRoom.users\<close> and keeps those for which \<open>prevRoom.users.hasOwnProperty(userId)\<close>
  holds, which are the own keys. The method is looked up on \<open>prevRoom.users\<close> itself: when
  that object has an own key \<open>hasOwnProperty\<close>, the value found is a stored entry, not a
  function, and the call throws a \<open>TypeError\<close>. Otherwise each own entry is copied with
  \<open>vote: null\<close> and assigned to \<open>updatedUsers[userId]\<close>.
\<close>

definition clear_votes :: "Entry obj \<Rightarrow> Uncaught + Entry obj" where
  "clear_votes us =
     (case map_of us ''hasOwnProperty'' of
        Some e \<Rightarrow> Inl TypeError
      | None \<Rightarrow>
          Inr (foldl (\<lambda>updatedUsers userId.
                        case map_of us userId of
                          None \<Rightarrow> updatedUsers
                        | Some e \<Rightarrow> obj_assign userId (set_vote None e) updatedUsers)
                 [] (map fst us)))"

text \<open>
  The updater of \<open>setRoom\<close> runs when the component renders; when it throws, the render
  fails and the outcome is the exception.
\<close>

definition on_AllVotesCleared :: "app_state \<Rightarrow> Uncaught + app_state" where
  "on_AllVotesCleared s =
     (case room s of
        None \<Rightarrow>
          Inr (s\<lparr>selectedVote := None, isVoting := True, showVotesState := False, error := None\<rparr>)
      | Some prevRoom \<Rightarrow>
          (case clear_votes (users prevRoom) of
             Inl e \<Rightarrow> Inl e
           | Inr updatedUsers \<Rightarrow>
               Inr (s\<lparr>room := Some (prevRoom\<lparr>users := updatedUsers\<rparr>),
                      selectedVote := None, isVoting := True, showVotesState := False,
                      error := None\<rparr>)))"

section \<open>Remote operations and their outcomes\<close>

text \<open>
  What the client sends over the hub connection: the five hub methods it invokes and
  \<open>connection.stop()\<close>. \<open>RevealVotes\<close> is invoked with \<open>roomId\<close> unchecked, so its argument
  may be \<open>null\<close>.
\<close>

datatype HubCall =
    JoinRoom string User
  | SendVote string string string
  | RevealVotes "string option"
  | ClearAllVotes string
  | LeaveRoom string string
  | Stop

text \<open>
  How an awaited hub operation ends: it resolves, or it rejects with an error whose
  \<open>message\<close> may be missing. Console output is not part of the model.
\<close>

datatype Outcome = Resolved | Rejected "string option"

text \<open>\<open>m || fallback\<close> for an optional message: a missing or empty message is falsy.\<close>

definition or_text :: "string option \<Rightarrow> string \<Rightarrow> string" where
  "or_text m fallback = (case m of None \<Rightarrow> fallback | Some t \<Rightarrow> if t = [] then fallback else t)"

section \<open>Control plane: createRoom\<close>

text \<open>
  A parsed JSON value. Numbers are kept as integers: the code only asks whether a value is
  falsy, which for a number means zero.
\<close>

datatype json =
    JNull
  | JBool bool
  | JNumber int
  | JString string
  | JArray "json list"
  | JObject "(string \<times> json) list"

text \<open>
  The response of \<open>fetch\<close>: \<open>status_line\<close> is the text
  \<open>${response.status} ${response.statusText}\<close>, and \<open>body\<close> is \<open>None\<close> when the body is
  not JSON, so that \<open>response.json()\<close> rejects.
\<close>

record Response =
  ok :: bool
  status_line :: string
  body :: "json option"

text \<open>
  The values the control-plane functions throw. \<open>CreateRoomFailed line\<close> is
  \<open>new Error(`Failed to create room: HTTP ${line}`)\<close>; \<open>JsonSyntaxError\<close> is
  the rejection of \<open>response.json()\<close> on a body that does not parse; \<open>BodyAlreadyRead\<close> is
  its rejection when the body stream was consumed by an earlier \<open>response.json()\<close>;
  \<open>Thrown\<close> is any other failure (of \<open>fetch\<close> itself, of another request, of a hub
  operation) with its message.
\<close>

datatype Err =
    CreateRoomFailed string
  | JsonSyntaxError
  | BodyAlreadyRead
  | Thrown "string option"

definition js_truthy :: "json \<Rightarrow> bool" where
  "js_truthy d =
     (case d of
        JNull \<Rightarrow> False
      | JBool b \<Rightarrow> b
      | JNumber n \<Rightarrow> n \<noteq> 0
      | JString t \<Rightarrow> t \<noteq> []
      | JArray xs \<Rightarrow> True
      | JObject kvs \<Rightarrow> True)"

text \<open>\<open>data.id\<close> when \<open>typeof data.id === 'string'\<close>.\<close>

definition string_id :: "json \<Rightarrow> string option" where
  "string_id d =
     (case d of
        JObject kvs \<Rightarrow> (case map_of kvs ''id'' of Some (JString t) \<Rightarrow> Some t | _ \<Rightarrow> None)
      | _ \<Rightarrow> None)"

text \<open>
  \<open>createRoom(roomId)\<close>, given how \<open>fetch\<close> ended. On a response that is not \<open>ok\<close> the
  \<open>throw\<close> sits in the \<open>catch\<close> of the attempt to parse the error body; when that body
  parses, control leaves the \<open>if\<close> and reaches the second \<open>response.json()\<close>, which
  rejects because the body was already read.
\<close>

definition createRoom :: "string \<Rightarrow> Err + Response \<Rightarrow> Err + string" where
  "createRoom requested fetched =
     (case fetched of
        Inl e \<Rightarrow> Inl e
      | Inr response \<Rightarrow>
          if \<not> ok response then
            (case body response of
               None \<Rightarrow> Inl (CreateRoomFailed (status_line response))
             | Some errorData \<Rightarrow> Inl BodyAlreadyRead)
          else
            (case body response of
               None \<Rightarrow> Inl JsonSyntaxError
             | Some data \<Rightarrow>
                 (case (js_truthy data, string_id data) of
                    (True, Some i) \<Rightarrow> Inr i
                  | _ \<Rightarrow> Inr requested)))"

section \<open>Session lifecycle controller\<close>

text \<open>
  Every function below is a closure of one render of \<open>PlanningPokerApp\<close>: the state
  variables it reads directly are the constants of that render, given as the first
  argument \<open>c\<close>, while the state it updates is the current one, the last argument. Each
  function returns the new state and the hub operations it issued, in order.
\<close>

text \<open>
  \<open>handleVote\<close>, in two parts: up to the \<open>await\<close> of \<open>SendVote\<close> (the state then, and the
  operation issued, if any), and the continuation once the operation has ended.
\<close>

definition handleVote_begin :: "app_state \<Rightarrow> string \<Rightarrow> app_state \<Rightarrow> app_state \<times> HubCall option" where
  "handleVote_begin c v s =
     (case (roomId c, user c, hubConnection c) of
        (Some r, Some u, Some h) \<Rightarrow>
          if r = [] then (s, None)
          else if isVoting c then (s\<lparr>selectedVote := Some v\<rparr>, Some (SendVote r (user_id u) v))
          else (s, None)
      | _ \<Rightarrow> (s, None))"

definition handleVote_settle :: "Outcome \<Rightarrow> app_state \<Rightarrow> app_state" where
  "handleVote_settle res s =
     (case res of
        Resolved \<Rightarrow> s
      | Rejected m \<Rightarrow> s\<lparr>error := Some (or_text m ''Failed to send vote''), selectedVote := None\<rparr>)"

definition handleVote :: "app_state \<Rightarrow> string \<Rightarrow> Outcome \<Rightarrow> app_state \<Rightarrow> app_state \<times> HubCall list" where
  "handleVote c v res s =
     (case handleVote_begin c v s of
        (s1, None) \<Rightarrow> (s1, [])
      | (s1, Some call) \<Rightarrow> (handleVote_settle res s1, [call]))"

definition handleClearVotes :: "app_state \<Rightarrow> Outcome \<Rightarrow> app_state \<Rightarrow> app_state \<times> HubCall list" where
  "handleClearVotes c res s =
     (case (roomId c, hubConnection c) of
        (Some r, Some h) \<Rightarrow>
          if r = [] then (s, [])
          else (case res of
                  Resolved \<Rightarrow> (s, [ClearAllVotes r])
                | Rejected m \<Rightarrow> (s\<lparr>error := Some (or_text m ''Failed to clear votes'')\<rparr>, [ClearAllVotes r]))
      | _ \<Rightarrow> (s, []))"

text \<open>\<open>handleRevealVotes\<close> has no \<open>try\<close>: a rejection changes no state.\<close>

definition handleRevealVotes :: "app_state \<Rightarrow> Outcome \<Rightarrow> app_state \<Rightarrow> app_state \<times> HubCall list" where
  "handleRevealVotes c res s =
     (case hubConnection c of
        Some h \<Rightarrow> (s, [RevealVotes (roomId c)])
      | None \<Rightarrow> (s, []))"

text \<open>
  \<open>handleLeaveRoom\<close>. \<open>LeaveRoom\<close> and \<open>stop\<close> share one \<open>try\<close>: when \<open>LeaveRoom\<close> rejects,
  \<open>stop\<close> is skipped. The \<open>finally\<close> and the resets after it run in every case.
\<close>

definition handleLeaveRoom :: "app_state \<Rightarrow> Outcome \<Rightarrow> app_state \<Rightarrow> app_state \<times> HubCall list" where
  "handleLeaveRoom c leave_res s =
     (let s1 = s\<lparr>isLoading := True\<rparr>;
          (s2, calls) =
            (case hubConnection c of
               None \<Rightarrow> (s1, [])
             | Some h \<Rightarrow>
                 (s1\<lparr>hubConnection := None\<rparr>,
                  (case (roomId c, user c) of
                     (Some r, Some u) \<Rightarrow>
                       if r = [] then [Stop]
                       else (case leave_res of
                               Resolved \<Rightarrow> [LeaveRoom r (user_id u), Stop]
                             | Rejected m \<Rightarrow> [LeaveRoom r (user_id u)])
                   | _ \<Rightarrow> [Stop])))
      in (s2\<lparr>roomId := None, user := None, room := None, selectedVote := None, error := None,
              isVoting := True, currentPage := createJoin, isLoading := False\<rparr>,
          calls))"

text \<open>The connection lifecycle notifications registered in \<open>setupSignalR\<close>.\<close>

definition onclose :: "app_state \<Rightarrow> app_state" where
  "onclose s = s\<lparr>error := Some ''Connection lost. Attempting to reconnect...'', hubConnection := None\<rparr>"

definition onreconnecting :: "app_state \<Rightarrow> app_state" where
  "onreconnecting s = s\<lparr>error := Some ''Connection lost. Attempting to reconnect...''\<rparr>"

text \<open>
  \<open>connection.onreconnected(...)\<close>. Like \<open>on_VotesRevealed\<close> it is created once inside
  \<open>setupSignalR\<close>: \<open>roomId\<close>, \<open>user\<close> and \<open>handleLeaveRoom\<close> in its body are those of the
  render \<open>c\<close> in which that \<open>setupSignalR\<close> closure was made (\<open>handleLeaveRoom\<close> is memoised
  on the same dependencies, so it is the closure of the same values). \<open>connection\<close> is
  the connection the handler was registered on.
\<close>

definition onreconnected ::
  "app_state \<Rightarrow> HubConnection \<Rightarrow> Outcome \<Rightarrow> Outcome \<Rightarrow> app_state \<Rightarrow> app_state \<times> HubCall list" where
  "onreconnected c connection join_res leave_res s =
     (let s1 = s\<lparr>error := None, hubConnection := Some connection\<rparr>
      in case (roomId c, user c) of
           (Some r, Some u) \<Rightarrow>
             if r = [] then handleLeaveRoom c leave_res s1
             else (case join_res of
                     Resolved \<Rightarrow> (s1, [JoinRoom r u])
                   | Rejected m \<Rightarrow>
                       (let (s2, calls) =
                              handleLeaveRoom c leave_res
                                (s1\<lparr>error := Some ''Failed to rejoin room after reconnect. Please refresh or leave/rejoin.''\<rparr>)
                        in (s2, JoinRoom r u # calls)))
         | _ \<Rightarrow> handleLeaveRoom c leave_res s1)"

text \<open>\<open>err.message\<close> of a thrown value; the two engine errors carry the engine's text.\<close>

definition message_of :: "Err \<Rightarrow> string option" where
  "message_of e =
     (case e of
        CreateRoomFailed line \<Rightarrow> Some (''Failed to create room: HTTP '' @ line)
      | JsonSyntaxError \<Rightarrow> Some ''Unexpected end of JSON input''
      | BodyAlreadyRead \<Rightarrow> Some ''body stream already read''
      | Thrown m \<Rightarrow> m)"

text \<open>
  \<open>setupSignalR(currentRoomId, currentUser)\<close>, a closure of the render \<open>c\<close>. It returns
  whether it threw, the new state, the hub operations issued, and the render captured by
  the handlers of a connection that is now live (\<open>None\<close> when no connection was built or
  the one built is not running).
\<close>

definition setupSignalR ::
  "app_state \<Rightarrow> string \<Rightarrow> User \<Rightarrow> HubConnection \<Rightarrow> Outcome \<Rightarrow> Outcome \<Rightarrow> app_state
     \<Rightarrow> (Err + unit) \<times> app_state \<times> HubCall list \<times> app_state option" where
  "setupSignalR c currentRoomId currentUser connection start_res join_res s =
     (case hubConnection c of
        Some h \<Rightarrow> (Inr (), s, [], None)
      | None \<Rightarrow>
          (case start_res of
             Rejected m \<Rightarrow>
               (Inl (Thrown m),
                s\<lparr>error := Some (''Failed to connect to real-time service: '' @ or_text m ''Unknown error''),
                  hubConnection := None\<rparr>,
                [], None)
           | Resolved \<Rightarrow>
               (case join_res of
                  Resolved \<Rightarrow>
                    (Inr (), s\<lparr>hubConnection := Some connection\<rparr>,
                     [JoinRoom currentRoomId currentUser], Some c)
                | Rejected m \<Rightarrow>
                    (Inl (Thrown m),
                     s\<lparr>error := Some (''Failed to connect to real-time service: '' @ or_text m ''Unknown error''),
                       hubConnection := None\<rparr>,
                     [JoinRoom currentRoomId currentUser, Stop], None))))"

text \<open>
  \<open>handleJoinRoom(newRoomId, newUserName)\<close>, a closure of the render \<open>c\<close>, which is also the
  render of the \<open>setupSignalR\<close> it calls as far as \<open>hubConnection\<close>, \<open>roomId\<close> and \<open>user\<close> go
  (the dependencies of that memoised callback); \<open>m\<close> is the render in which the
  \<open>setupSignalR\<close> closure was made. The outcomes of the three control-plane requests and of
  the two hub operations are arguments.
\<close>

definition handleJoinRoom ::
  "app_state \<Rightarrow> app_state \<Rightarrow> string \<Rightarrow> string \<Rightarrow> Err + Response \<Rightarrow> Err + User \<Rightarrow> Err + Room
     \<Rightarrow> HubConnection \<Rightarrow> Outcome \<Rightarrow> Outcome \<Rightarrow> app_state
     \<Rightarrow> app_state \<times> HubCall list \<times> app_state option" where
  "handleJoinRoom c m newRoomId newUserName created added fetched connection start_res join_res s =
     (let s0 = s\<lparr>isLoading := True, error := None\<rparr>;
          failed = (\<lambda>e st calls.
            (let message = or_text (error c) (or_text (message_of e)
                              ''An unknown error occurred during room creation/join.'');
                 st1 = st\<lparr>error := Some message, roomId := None, user := None, room := None\<rparr>
             in case hubConnection c of
                  None \<Rightarrow> (st1\<lparr>isLoading := False\<rparr>, calls, None)
                | Some h \<Rightarrow> (st1\<lparr>hubConnection := None, isLoading := False\<rparr>, calls @ [Stop], None)))
      in case createRoom newRoomId created of
           Inl e \<Rightarrow> failed e s0 []
         | Inr confirmedRoomId \<Rightarrow>
             (let s1 = s0\<lparr>roomId := Some confirmedRoomId\<rparr>
              in case added of
                   Inl e \<Rightarrow> failed e s1 []
                 | Inr newUser \<Rightarrow>
                     (let s2 = s1\<lparr>user := Some newUser\<rparr>
                      in case fetched of
                           Inl e \<Rightarrow> failed e s2 []
                         | Inr fetchedRoom \<Rightarrow>
                             (let s3 = s2\<lparr>room := Some (fetchedRoom\<lparr>users :=
                                             obj_assign (user_id newUser) (Participant newUser) (users fetchedRoom)\<rparr>)\<rparr>
                              in case setupSignalR m confirmedRoomId newUser connection start_res join_res s3 of
                                   (Inl e, s4, calls, live) \<Rightarrow> failed e s4 calls
                                 | (Inr u, s4, calls, live) \<Rightarrow>
                                     (s4\<lparr>currentPage := planningPoker, isLoading := False\<rparr>, calls, live)))))"

section \<open>User-facing boundary: PlanningPokerPage\<close>

text \<open>
  The \<open>disabled\<close> attribute of the two round buttons:
  \<open>Object.values(room.users).every(u => u.vote === null)\<close>.
\<close>

definition reveal_disabled :: "Room \<Rightarrow> bool" where
  "reveal_disabled r = list_all (\<lambda>u. entry_vote u = None) (obj_values (users r))"

definition clear_disabled :: "Room \<Rightarrow> bool" where
  "clear_disabled r = list_all (\<lambda>u. entry_vote u = None) (obj_values (users r))"

text \<open>
  The page is rendered only on \<open>planningPoker\<close> with a room and a user. Its handlers are
  those of the render that shows the state, so their closure is the state itself. The
  \<open>Button\<close> component is not among the sources; it renders an HTML button, and a disabled
  button delivers no click.
\<close>

definition page_shown :: "app_state \<Rightarrow> bool" where
  "page_shown s = (currentPage s = planningPoker \<and> room s \<noteq> None \<and> user s \<noteq> None)"

definition press_RevealVotes :: "Outcome \<Rightarrow> app_state \<Rightarrow> app_state \<times> HubCall list" where
  "press_RevealVotes res s =
     (case room s of
        None \<Rightarrow> (s, [])
      | Some r \<Rightarrow>
          if page_shown s then (if reveal_disabled r then (s, []) else handleRevealVotes s res s)
          else (s, []))"

definition press_ClearVotes :: "Outcome \<Rightarrow> app_state \<Rightarrow> app_state \<times> HubCall list" where
  "press_ClearVotes res s =
     (case room s of
        None \<Rightarrow> (s, [])
      | Some r \<Rightarrow>
          if page_shown s then (if clear_disabled r then (s, []) else handleClearVotes s res s)
          else (s, []))"

section \<open>Example values\<close>

definition ann :: User where
  "ann = \<lparr>user_id = ''P1'', name = ''Ann'', vote = None\<rparr>"

definition bob :: User where
  "bob = \<lparr>user_id = ''P2'', name = ''Bob'', vote = None\<rparr>"

definition room_R1 :: Room where
  "room_R1 = \<lparr>room_id = ''R1'', users = [(''P1'', Participant ann), (''P2'', Participant bob)]\<rparr>"

text \<open>The state of a session in which Ann has joined room R1 over connection 1.\<close>

definition joined_state :: app_state where
  "joined_state =
     \<lparr>currentPage = planningPoker, roomId = Some ''R1'', user = Some ann, room = Some room_R1,
      hubConnection = Some (HubConnection 1), selectedVote = None, error = None,
      isVoting = True, isLoading = False, showVotesState = False\<rparr>"

text \<open>
  A first join, made from the first render of the application: room R1 is created, Ann is
  registered as P1, the fetched room has no participants yet, and the connection starts
  and accepts \<open>JoinRoom\<close>.
\<close>

definition first_join :: "app_state \<times> HubCall list \<times> app_state option" where
  "first_join =
     handleJoinRoom initial_state initial_state ''R1'' ''Ann''
       (Inr \<lparr>ok = True, status_line = ''200 OK'', body = Some (JObject [(''id'', JString ''R1'')])\<rparr>)
       (Inr ann) (Inr \<lparr>room_id = ''R1'', users = []\<rparr>)
       (HubConnection 1) Resolved Resolved initial_state"

text \<open>The same session after Ann voted 5 and the votes were revealed.\<close>

definition voted_state :: app_state where
  "voted_state = joined_state\<lparr>room := Some \<lparr>room_id = ''R1'',
        users = [(''P1'', Participant (ann\<lparr>vote := Some ''5''\<rparr>)), (''P2'', Participant bob)]\<rparr>,
       selectedVote := Some ''5'', isVoting := False, showVotesState := True\<rparr>"

text \<open>A participant whose id, as the control plane assigned it, is \<open>__proto__\<close>.\<close>

definition eve :: User where
  "eve = \<lparr>user_id = ''__proto__'', name = ''Eve'', vote = None\<rparr>"

section \<open>Association lists as dictionary objects\<close>

lemma delete_absent: "map_of al k = None \<Longrightarrow> AList.delete k al = al"
  by (induction al) (auto split: if_splits)

lemma obj_assign_known:
  assumes "map_of a k = Some old"
  shows "map fst (obj_assign k v a) = map fst a"
    and "map_of (obj_assign k v a) = (map_of a)(k \<mapsto> v)"
proof -
  from assms have "k \<in> set (map fst a)"
    by (metis map_of_eq_None_iff option.distinct(1) set_map)
  then show "map fst (obj_assign k v a) = map fst a"
    using assms by (simp add: obj_assign_def AList.update_keys)
  show "map_of (obj_assign k v a) = (map_of a)(k \<mapsto> v)"
    using assms by (simp add: obj_assign_def AList.update_conv')
qed

lemma obj_assign_fresh:
  "map_of a k = None \<Longrightarrow> obj_assign k v a = (if k = ''__proto__'' then a else a @ [(k, v)])"
  by (simp add: obj_assign_def)

lemma obj_spread_Cons: "obj_spread a (kv # b) = obj_spread (AList.update (fst kv) (snd kv) a) b"
  by (simp add: obj_spread_def)

lemma obj_spread_Nil: "obj_spread a [] = a"
  by (simp add: obj_spread_def)

lemma obj_spread_keys: "fst ` set (obj_spread a b) = fst ` set a \<union> fst ` set b"
proof (induction b arbitrary: a)
  case Nil
  show ?case by (simp add: obj_spread_Nil)
next
  case (Cons kv b)
  show ?case
    unfolding obj_spread_Cons Cons.IH AList.dom_update by auto
qed

lemma obj_spread_other: "k \<notin> fst ` set b \<Longrightarrow> map_of (obj_spread a b) k = map_of a k"
proof (induction b arbitrary: a)
  case Nil
  show ?case by (simp add: obj_spread_Nil)
next
  case (Cons kv b)
  from Cons.prems have "k \<noteq> fst kv" and "k \<notin> fst ` set b" by auto
  then show ?case
    by (simp add: obj_spread_Cons Cons.IH AList.update_conv')
qed

lemma obj_spread_named:
  "distinct (map fst b) \<Longrightarrow> map_of b k = Some v \<Longrightarrow> map_of (obj_spread a b) k = Some v"
proof (induction b arbitrary: a)
  case Nil
  then show ?case by simp
next
  case (Cons kv b)
  show ?case
  proof (cases "k = fst kv")
    case True
    with Cons.prems have "v = snd kv" and "k \<notin> fst ` set b" by (auto simp: image_iff)
    then show ?thesis
      using True by (simp add: obj_spread_Cons obj_spread_other AList.update_conv')
  next
    case False
    with Cons.prems have "distinct (map fst b)" and "map_of b k = Some v"
      by (cases kv; auto)+
    then show ?thesis
      by (simp add: obj_spread_Cons Cons.IH)
  qed
qed

lemma obj_spread_wf: "wf_obj a \<Longrightarrow> wf_obj (obj_spread a b)"
  unfolding wf_obj_def
  by (induction b arbitrary: a) (simp_all add: obj_spread_Nil obj_spread_Cons AList.distinct_update)

lemma clear_fold:
  "distinct ks \<Longrightarrow> set ks \<inter> fst ` set acc = {} \<Longrightarrow> set ks \<subseteq> dom (map_of us) \<Longrightarrow>
   foldl (\<lambda>updatedUsers userId.
            case map_of us userId of
              None \<Rightarrow> updatedUsers
            | Some e \<Rightarrow> obj_assign userId (set_vote None e) updatedUsers) acc ks
     = acc @ map (\<lambda>k. (k, set_vote None (the (map_of us k)))) (filter (\<lambda>k. k \<noteq> ''__proto__'') ks)"
proof (induction ks arbitrary: acc)
  case Nil
  show ?case by simp
next
  case (Cons k ks)
  from Cons.prems obtain e where e: "map_of us k = Some e" by auto
  from Cons.prems have "k \<notin> fst ` set acc" by auto
  then have fresh: "map_of acc k = None" by (simp add: map_of_eq_None_iff)
  let ?acc = "obj_assign k (set_vote None e) acc"
  have step: "?acc = (if k = ''__proto__'' then acc else acc @ [(k, set_vote None e)])"
    using fresh by (rule obj_assign_fresh)
  have disj: "set ks \<inter> fst ` set ?acc = {}"
    using Cons.prems by (auto simp: step)
  have "distinct ks" and "set ks \<subseteq> dom (map_of us)" using Cons.prems by auto
  from Cons.IH[OF this(1) disj this(2)] show ?case
    by (simp add: e step)
qed

text \<open>
  On a replica without the key \<open>hasOwnProperty\<close> the loop of \<open>AllVotesCleared\<close> copies every
  entry with its vote absent, in order, except an entry under \<open>__proto__\<close>, which it loses.
\<close>

lemma clear_votes_value:
  assumes "wf_obj us" and "map_of us ''hasOwnProperty'' = None"
  shows "clear_votes us =
           Inr (map (\<lambda>kv. (fst kv, set_vote None (snd kv)))
                  (filter (\<lambda>kv. fst kv \<noteq> ''__proto__'') us))"
proof -
  have d: "distinct (map fst us)" using assms(1) by (simp add: wf_obj_def)
  have sub: "set (map fst us) \<subseteq> dom (map_of us)"
    by (auto simp: dom_map_of_conv_image_fst)
  have same: "map (\<lambda>k. (k, set_vote None (the (map_of us k)))) (filter (\<lambda>k. k \<noteq> ''__proto__'') (map fst us))
      = map (\<lambda>kv. (fst kv, set_vote None (snd kv))) (filter (\<lambda>kv. fst kv \<noteq> ''__proto__'') us)"
    using d by (auto simp: filter_map comp_def)
  have "foldl (\<lambda>updatedUsers userId.
            case map_of us userId of
              None \<Rightarrow> updatedUsers
            | Some e \<Rightarrow> obj_assign userId (set_vote None e) updatedUsers) [] (map fst us)
      = [] @ map (\<lambda>k. (k, set_vote None (the (map_of us k)))) (filter (\<lambda>k. k \<noteq> ''__proto__'') (map fst us))"
    by (rule clear_fold[OF d _ sub]) simp
  then show ?thesis
    using assms(2) same by (simp add: clear_votes_def)
qed

lemma clear_votes_throws:
  "map_of us ''hasOwnProperty'' = Some e \<Longrightarrow> clear_votes us = Inl TypeError"
  by (simp add: clear_votes_def)

section \<open>The first join\<close>

text \<open>The first join succeeds and leaves the handlers of the first render listening.\<close>

lemma first_join_value:
  "first_join =
     (joined_state\<lparr>room := Some \<lparr>room_id = ''R1'', users = [(''P1'', Participant ann)]\<rparr>\<rparr>,
      [JoinRoom ''R1'' ann], Some initial_state)"
  by (simp add: first_join_def handleJoinRoom_def createRoom_def setupSignalR_def js_truthy_def
      string_id_def obj_assign_def initial_state_def joined_state_def ann_def)

section \<open>Properties of the replica handlers\<close>

text \<open>
  C8: a \<open>UserLeft\<close> event removes the entry of the named participant and keeps the room id
  and every other entry as they were; when the id is not in the replica, or there is no
  replica, the whole state is left unchanged. The handler has no failing branch.
\<close>

theorem on_UserLeft_removes:
  "(room s = Some prev \<longrightarrow>
      (\<exists>r. room (on_UserLeft userId leftUserName s) = Some r \<and> room_id r = room_id prev
         \<and> map_of (users r) = (map_of (users prev))(userId := None)
         \<and> map fst (users r) = removeAll userId (map fst (users prev))
         \<and> (map_of (users prev) userId = None \<longrightarrow> on_UserLeft userId leftUserName s = s)))
   \<and> (room s = None \<longrightarrow> on_UserLeft userId leftUserName s = s)"
  by (auto simp: on_UserLeft_def AList.delete_conv' AList.delete_keys delete_absent)

theorem on_UserLeft_removes_witness:
  "room joined_state = Some room_R1
   \<and> room (on_UserLeft ''P2'' ''Bob'' joined_state)
       = Some \<lparr>room_id = ''R1'', users = [(''P1'', Participant ann)]\<rparr>
   \<and> map_of (users room_R1) ''P9'' = None
   \<and> on_UserLeft ''P9'' ''Zed'' joined_state = joined_state
   \<and> room initial_state = None
   \<and> on_UserLeft ''P2'' ''Bob'' initial_state = initial_state"
proof -
  have r: "room joined_state = Some room_R1" by (simp add: joined_state_def)
  have a: "map_of (users room_R1) ''P9'' = None" by (simp add: room_R1_def)
  have n: "room initial_state = None" by (simp add: initial_state_def)
  from on_UserLeft_removes[of joined_state room_R1 "''P9''" "''Zed''"] r a
  have 1: "on_UserLeft ''P9'' ''Zed'' joined_state = joined_state" by blast
  from on_UserLeft_removes[of initial_state room_R1 "''P2''" "''Bob''"] n
  have 2: "on_UserLeft ''P2'' ''Bob'' initial_state = initial_state" by blast
  have 3: "room (on_UserLeft ''P2'' ''Bob'' joined_state)
       = Some \<lparr>room_id = ''R1'', users = [(''P1'', Participant ann)]\<rparr>"
    by (simp add: on_UserLeft_def joined_state_def room_R1_def)
  show ?thesis using r a n 1 2 3 by simp
qed

text \<open>
  What the \<open>VoteReceived\<close> handler does for an id that is no property name of
  \<open>Object.prototype\<close>: an id that is not in the replica leaves the replica as it was, and
  a known id keeps the room id and the keys and changes only the vote of that entry.
\<close>

lemma on_VoteReceived_ordinary:
  assumes "room s = Some prev"
  shows "userId \<notin> set Object_prototype_names \<Longrightarrow> map_of (users prev) userId = None
           \<Longrightarrow> room (on_VoteReceived userId v s) = Some prev"
    and "map_of (users prev) userId = Some e
           \<Longrightarrow> \<exists>r. room (on_VoteReceived userId v s) = Some r \<and> room_id r = room_id prev
                 \<and> map fst (users r) = map fst (users prev)
                 \<and> map_of (users r) = (map_of (users prev))(userId \<mapsto> set_vote (Some v) e)"
  using assms by (simp_all add: on_VoteReceived_def obj_read_def obj_assign_known)

text \<open>
  C7 at the failing input. After the first join the replica holds P1 only. A
  \<open>VoteReceived\<close> event for the id \<open>constructor\<close>, which is not in the replica, finds the
  inherited \<open>Object.prototype.constructor\<close>, takes the branch of a known participant and
  stores a new entry that has the vote alone.
\<close>

theorem VoteReceived_for_constructor:
  "room (fst first_join) = Some \<lparr>room_id = ''R1'', users = [(''P1'', Participant ann)]\<rparr>
   \<and> map_of [(''P1'', Participant ann)] ''constructor'' = None
   \<and> room (on_VoteReceived ''constructor'' ''5'' (fst first_join))
       = Some \<lparr>room_id = ''R1'',
               users = [(''P1'', Participant ann), (''constructor'', VoteOnly (Some ''5''))]\<rparr>"
  by (simp add: first_join_value on_VoteReceived_def obj_read_def obj_assign_def
      Object_prototype_names_def joined_state_def)

text \<open>
  C2: when the replica is not empty, a \<open>UserJoined\<close> event merges its payload into it. The
  room id stays the one already known, whatever id the payload carries; the keys afterwards
  are those known before together with those of the payload; an entry the payload does not
  mention keeps its value, and an entry the payload names has the payload's value.
\<close>

theorem on_UserJoined_merges:
  assumes "room s = Some prev"
    and "incoming = (case patch_users updatedRoomData of None \<Rightarrow> [] | Some us \<Rightarrow> us)"
  shows "\<exists>r. room (on_UserJoined updatedRoomData joinedUserName s) = Some r
           \<and> room_id r = room_id prev
           \<and> fst ` set (users r) = fst ` set (users prev) \<union> fst ` set incoming
           \<and> (\<forall>k u. map_of (users prev) k = Some u \<longrightarrow> k \<notin> fst ` set incoming
                  \<longrightarrow> map_of (users r) k = Some u)
           \<and> (wf_obj incoming \<longrightarrow>
                  (\<forall>k u. map_of incoming k = Some u \<longrightarrow> map_of (users r) k = Some u))
           \<and> (wf_obj (users prev) \<longrightarrow> wf_obj (users r))"
proof -
  let ?r = "\<lparr>room_id = room_id prev, users = obj_spread (users prev) incoming\<rparr>"
  have "room (on_UserJoined updatedRoomData joinedUserName s) = Some ?r"
    using assms by (simp add: on_UserJoined_def)
  moreover have "fst ` set (users ?r) = fst ` set (users prev) \<union> fst ` set incoming"
    by (simp add: obj_spread_keys)
  moreover have "\<forall>k u. map_of (users prev) k = Some u \<longrightarrow> k \<notin> fst ` set incoming
                  \<longrightarrow> map_of (users ?r) k = Some u"
    by (simp add: obj_spread_other)
  moreover have "wf_obj incoming \<longrightarrow>
                  (\<forall>k u. map_of incoming k = Some u \<longrightarrow> map_of (users ?r) k = Some u)"
    by (simp add: wf_obj_def obj_spread_named)
  moreover have "wf_obj (users prev) \<longrightarrow> wf_obj (users ?r)"
    by (simp add: obj_spread_wf)
  ultimately show ?thesis by simp
qed

theorem on_UserJoined_merges_witness:
  "room joined_state = Some room_R1
   \<and> wf_obj [(''P3'', (Participant \<lparr>user_id = ''P3'', name = ''Cy'', vote = None\<rparr>))]
   \<and> wf_obj (users room_R1)
   \<and> (\<exists>r. room (on_UserJoined
                \<lparr>patch_id = ''R2'',
                 patch_users = Some [(''P3'', (Participant \<lparr>user_id = ''P3'', name = ''Cy'', vote = None\<rparr>))]\<rparr>
                ''Cy'' joined_state) = Some r
          \<and> room_id r = ''R1''
          \<and> map_of (users r) ''P1'' = Some (Participant ann)
          \<and> map_of (users r) ''P2'' = Some (Participant bob)
          \<and> map_of (users r) ''P3'' = Some (Participant \<lparr>user_id = ''P3'', name = ''Cy'', vote = None\<rparr>)
          \<and> wf_obj (users r))"
proof -
  let ?cy = "(Participant \<lparr>user_id = ''P3'', name = ''Cy'', vote = None\<rparr>)"
  let ?p = "\<lparr>patch_id = ''R2'', patch_users = Some [(''P3'', ?cy)]\<rparr>"
  have r: "room joined_state = Some room_R1" by (simp add: joined_state_def)
  have i: "[(''P3'', ?cy)] = (case patch_users ?p of None \<Rightarrow> [] | Some us \<Rightarrow> us)" by simp
  have w: "wf_obj [(''P3'', ?cy)]" by (simp add: wf_obj_def)
  have v: "wf_obj (users room_R1)" by (simp add: wf_obj_def room_R1_def)
  have m: "map_of (users room_R1) ''P1'' = Some (Participant ann)"
    "map_of (users room_R1) ''P2'' = Some (Participant bob)"
    "''P1'' \<notin> fst ` set [(''P3'', ?cy)]" "''P2'' \<notin> fst ` set [(''P3'', ?cy)]"
    "map_of [(''P3'', ?cy)] ''P3'' = Some ?cy" "room_id room_R1 = ''R1''"
    by (simp_all add: room_R1_def)
  from on_UserJoined_merges[OF r i, of "''Cy''"] obtain q where
    q1: "room (on_UserJoined ?p ''Cy'' joined_state) = Some q" and
    q2: "room_id q = room_id room_R1" and
    q3: "\<forall>k u. map_of (users room_R1) k = Some u \<longrightarrow> k \<notin> fst ` set [(''P3'', ?cy)]
           \<longrightarrow> map_of (users q) k = Some u" and
    q4: "wf_obj [(''P3'', ?cy)] \<longrightarrow>
           (\<forall>k u. map_of [(''P3'', ?cy)] k = Some u \<longrightarrow> map_of (users q) k = Some u)" and
    q5: "wf_obj (users room_R1) \<longrightarrow> wf_obj (users q)"
    by blast
  have a: "map_of (users q) ''P1'' = Some (Participant ann)" using q3 m(1) m(3) by blast
  have b: "map_of (users q) ''P2'' = Some (Participant bob)" using q3 m(2) m(4) by blast
  have c: "map_of (users q) ''P3'' = Some ?cy" using q4 w m(5) by blast
  have d: "wf_obj (users q)" using q5 v by blast
  have e: "room_id q = ''R1''" using q2 m(6) by simp
  from q1 a b c d e have "\<exists>r. room (on_UserJoined ?p ''Cy'' joined_state) = Some r
          \<and> room_id r = ''R1''
          \<and> map_of (users r) ''P1'' = Some (Participant ann)
          \<and> map_of (users r) ''P2'' = Some (Participant bob)
          \<and> map_of (users r) ''P3'' = Some ?cy
          \<and> wf_obj (users r)" by blast
  with r w v show ?thesis by blast
qed

text \<open>
  What the \<open>AllVotesCleared\<close> handler does on a replica whose keys include neither
  \<open>hasOwnProperty\<close> nor \<open>__proto__\<close>: it keeps the room id and the keys, leaves every
  vote absent, discards the local selection and puts the visibility state at
  \<open>Collecting\<close> with \<open>canVote\<close> true.
\<close>

lemma on_AllVotesCleared_ordinary:
  assumes "room s = Some prev" and "wf_obj (users prev)"
    and "map_of (users prev) ''hasOwnProperty'' = None"
    and "map_of (users prev) ''__proto__'' = None"
  shows "\<exists>s' r. on_AllVotesCleared s = Inr s' \<and> room s' = Some r \<and> room_id r = room_id prev
           \<and> users r = map (\<lambda>kv. (fst kv, set_vote None (snd kv))) (users prev)
           \<and> list_all (\<lambda>u. entry_vote u = None) (obj_values (users r))
           \<and> selectedVote s' = None \<and> visibility s' = Collecting \<and> canVote s'"
proof -
  have "fst kv \<noteq> ''__proto__''" if "kv \<in> set (users prev)" for kv
    using that assms(4) by (metis image_eqI map_of_eq_None_iff)
  then have keep: "filter (\<lambda>kv. fst kv \<noteq> ''__proto__'') (users prev) = users prev"
    by (simp add: filter_id_conv)
  have cleared: "entry_vote (set_vote None e) = None" for e
    by (cases e) (simp_all add: entry_vote_def set_vote_def)
  have "list_all (\<lambda>u. entry_vote u = None)
          (obj_values (map (\<lambda>kv. (fst kv, set_vote None (snd kv))) (users prev)))"
    by (simp add: obj_values_def list_all_iff cleared)
  then show ?thesis
    using assms(1) clear_votes_value[OF assms(2) assms(3)] keep
    by (simp add: on_AllVotesCleared_def visibility_def canVote_def)
qed

text \<open>
  C6 at the failing inputs. A replica that has an entry under \<open>hasOwnProperty\<close> (here one
  that a \<open>VoteReceived\<close> event for that id has stored after the first join) makes the
  updater throw: no vote is cleared and the state is not set. A replica that has a
  participant whose id is \<open>__proto__\<close> (here one that a \<open>UserJoined\<close> payload has brought)
  loses that participant.
\<close>

theorem AllVotesCleared_special_keys:
  "room (on_VoteReceived ''hasOwnProperty'' ''5'' (fst first_join))
     = Some \<lparr>room_id = ''R1'',
             users = [(''P1'', Participant ann), (''hasOwnProperty'', VoteOnly (Some ''5''))]\<rparr>
   \<and> on_AllVotesCleared (on_VoteReceived ''hasOwnProperty'' ''5'' (fst first_join)) = Inl TypeError
   \<and> room (on_UserJoined \<lparr>patch_id = ''R1'', patch_users = Some [(''__proto__'', Participant eve)]\<rparr>
              ''Eve'' (fst first_join))
       = Some \<lparr>room_id = ''R1'',
               users = [(''P1'', Participant ann), (''__proto__'', Participant eve)]\<rparr>
   \<and> on_AllVotesCleared
         (on_UserJoined \<lparr>patch_id = ''R1'', patch_users = Some [(''__proto__'', Participant eve)]\<rparr>
            ''Eve'' (fst first_join))
       = Inr (fst first_join)
   \<and> room (fst first_join) = Some \<lparr>room_id = ''R1'', users = [(''P1'', Participant ann)]\<rparr>"
  by (simp add: first_join_value on_VoteReceived_def on_UserJoined_def on_AllVotesCleared_def
      clear_votes_def obj_read_def obj_assign_def obj_spread_def set_vote_def
      Object_prototype_names_def joined_state_def ann_def)

section \<open>Properties of the round buttons\<close>

text \<open>
  C9: on a page whose room has no vote cast, both round buttons are disabled, and pressing
  either of them changes no state and issues no hub operation: neither \<open>RevealVotes\<close> nor
  \<open>ClearAllVotes\<close> is sent.
\<close>

theorem round_buttons_disabled_without_votes:
  assumes "room s = Some r" and "\<forall>kv \<in> set (users r). entry_vote (snd kv) = None"
  shows "reveal_disabled r \<and> clear_disabled r
         \<and> press_RevealVotes res s = (s, []) \<and> press_ClearVotes res' s = (s, [])"
proof -
  have d: "list_all (\<lambda>u. entry_vote u = None) (obj_values (users r))"
    using assms(2) by (simp add: obj_values_def list_all_iff)
  then have "reveal_disabled r" and "clear_disabled r"
    by (simp_all add: reveal_disabled_def clear_disabled_def)
  then show ?thesis
    using assms(1) by (simp add: press_RevealVotes_def press_ClearVotes_def)
qed

theorem round_buttons_disabled_without_votes_witness:
  "room joined_state = Some room_R1
   \<and> list_all (\<lambda>kv. entry_vote (snd kv) = None) (users room_R1)
   \<and> page_shown joined_state
   \<and> press_RevealVotes Resolved joined_state = (joined_state, [])
   \<and> press_ClearVotes Resolved joined_state = (joined_state, [])
   \<and> press_RevealVotes Resolved (on_VoteReceived ''P1'' ''5'' joined_state)
       = (on_VoteReceived ''P1'' ''5'' joined_state, [RevealVotes (Some ''R1'')])
   \<and> press_ClearVotes Resolved (on_VoteReceived ''P1'' ''5'' joined_state)
       = (on_VoteReceived ''P1'' ''5'' joined_state, [ClearAllVotes ''R1''])"
proof -
  have r: "room joined_state = Some room_R1" by (simp add: joined_state_def)
  have a: "\<forall>kv \<in> set (users room_R1). entry_vote (snd kv) = None"
    by (simp add: room_R1_def ann_def bob_def entry_vote_def)
  have p: "page_shown joined_state" by (simp add: page_shown_def joined_state_def)
  have e: "press_RevealVotes Resolved (on_VoteReceived ''P1'' ''5'' joined_state)
       = (on_VoteReceived ''P1'' ''5'' joined_state, [RevealVotes (Some ''R1'')])"
    by (simp add: press_RevealVotes_def on_VoteReceived_def joined_state_def room_R1_def ann_def
        bob_def page_shown_def reveal_disabled_def obj_values_def handleRevealVotes_def
        obj_read_def obj_assign_def set_vote_def entry_vote_def)
  have f: "press_ClearVotes Resolved (on_VoteReceived ''P1'' ''5'' joined_state)
       = (on_VoteReceived ''P1'' ''5'' joined_state, [ClearAllVotes ''R1''])"
    by (simp add: press_ClearVotes_def on_VoteReceived_def joined_state_def room_R1_def ann_def
        bob_def page_shown_def clear_disabled_def obj_values_def handleClearVotes_def
        obj_read_def obj_assign_def set_vote_def entry_vote_def)
  have l: "list_all (\<lambda>kv. entry_vote (snd kv) = None) (users room_R1)"
    using a by (simp add: list_all_iff)
  from round_buttons_disabled_without_votes[OF r a, of Resolved Resolved]
  show ?thesis using r l p e f by simp
qed

section \<open>Properties of createRoom\<close>

text \<open>
  C10, as the code has it: on a success response whose body parses as JSON, \<open>createRoom\<close>
  returns a room id, which is the \<open>id\<close> of the body when the body is an object with a
  string \<open>id\<close> and the requested room id otherwise; on a success response whose body does
  not parse it fails.
\<close>

theorem createRoom_success:
  assumes "ok response"
  shows "(\<forall>data. body response = Some data \<longrightarrow>
            (\<exists>i. createRoom requested (Inr response) = Inr i
               \<and> (string_id data = None \<longrightarrow> i = requested)
               \<and> (\<forall>j. string_id data = Some j \<longrightarrow> i = j)))
         \<and> (body response = None \<longrightarrow> createRoom requested (Inr response) = Inl JsonSyntaxError)"
proof -
  have "js_truthy data" if "string_id data = Some j" for data j
    using that by (cases data) (simp_all add: string_id_def js_truthy_def)
  then show ?thesis
    using assms by (auto simp: createRoom_def split: option.splits bool.splits)
qed

theorem createRoom_success_witness:
  "ok \<lparr>ok = True, status_line = ''200 OK'', body = Some (JObject [(''name'', JString ''x'')])\<rparr>
   \<and> string_id (JObject [(''name'', JString ''x'')]) = None
   \<and> createRoom ''R1'' (Inr \<lparr>ok = True, status_line = ''200 OK'',
                               body = Some (JObject [(''name'', JString ''x'')])\<rparr>) = Inr ''R1''
   \<and> string_id (JObject [(''id'', JString ''R7'')]) = Some ''R7''
   \<and> createRoom ''R1'' (Inr \<lparr>ok = True, status_line = ''200 OK'',
                               body = Some (JObject [(''id'', JString ''R7'')])\<rparr>) = Inr ''R7''
   \<and> createRoom ''R1'' (Inr \<lparr>ok = True, status_line = ''200 OK'', body = Some JNull\<rparr>) = Inr ''R1''
   \<and> createRoom ''R1'' (Inr \<lparr>ok = True, status_line = ''200 OK'',
                               body = Some (JObject [(''id'', JNumber 7)])\<rparr>) = Inr ''R1''"
proof -
  let ?a = "\<lparr>ok = True, status_line = ''200 OK'', body = Some (JObject [(''name'', JString ''x'')])\<rparr>"
  let ?b = "\<lparr>ok = True, status_line = ''200 OK'', body = Some (JObject [(''id'', JString ''R7'')])\<rparr>"
  let ?c = "\<lparr>ok = True, status_line = ''200 OK'', body = Some JNull\<rparr>"
  let ?d = "\<lparr>ok = True, status_line = ''200 OK'', body = Some (JObject [(''id'', JNumber 7)])\<rparr>"
  have ids: "string_id (JObject [(''name'', JString ''x'')]) = None"
    "string_id (JObject [(''id'', JString ''R7'')]) = Some ''R7''"
    "string_id JNull = None" "string_id (JObject [(''id'', JNumber 7)]) = None"
    by (simp_all add: string_id_def)
  have 1: "createRoom ''R1'' (Inr ?a) = Inr ''R1''"
    using createRoom_success[of ?a "''R1''"] ids by auto
  have 2: "createRoom ''R1'' (Inr ?b) = Inr ''R7''"
    using createRoom_success[of ?b "''R1''"] ids by auto
  have 3: "createRoom ''R1'' (Inr ?c) = Inr ''R1''"
    using createRoom_success[of ?c "''R1''"] ids by auto
  have 4: "createRoom ''R1'' (Inr ?d) = Inr ''R1''"
    using createRoom_success[of ?d "''R1''"] ids by auto
  show ?thesis using ids 1 2 3 4 by simp
qed

text \<open>
  C10 as stated fails: a success response whose body is not JSON has no string \<open>id\<close>, and
  \<open>createRoom\<close> fails on it instead of falling back to the requested id; on a response
  that is not a success it throws.
\<close>

theorem createRoom_counterexample:
  "createRoom ''R1'' (Inr \<lparr>ok = True, status_line = ''200 OK'', body = None\<rparr>) = Inl JsonSyntaxError
   \<and> createRoom ''R1'' (Inr \<lparr>ok = False, status_line = ''500 Internal Server Error'', body = None\<rparr>)
       = Inl (CreateRoomFailed ''500 Internal Server Error'')"
  by (simp add: createRoom_def)

section \<open>Properties of the lifecycle controller\<close>

text \<open>
  C4, as the code has it. \<open>handleVote\<close> belongs to the render that shows the state, \<open>c\<close>.
  When \<open>canVote\<close> is false, or the room id, the user or the connection is missing in \<open>c\<close>,
  it changes no state and issues no hub operation. When \<open>canVote\<close> is true and all three
  are present, the selection is recorded before \<open>SendVote\<close> is issued, \<open>SendVote\<close> is the
  only operation issued, and a rejection of it sets the selection back to absent and
  stores an error message.
\<close>

theorem handleVote_guarded:
  "(\<not> canVote c \<longrightarrow> handleVote c v res s = (s, []))
   \<and> ((\<not> truthy (roomId c) \<or> user c = None \<or> hubConnection c = None)
         \<longrightarrow> handleVote c v res s = (s, []))
   \<and> (canVote c \<longrightarrow> roomId c = Some r \<longrightarrow> r \<noteq> [] \<longrightarrow> user c = Some u \<longrightarrow> hubConnection c = Some h
         \<longrightarrow> handleVote_begin c v s = (s\<lparr>selectedVote := Some v\<rparr>, Some (SendVote r (user_id u) v))
           \<and> handleVote c v Resolved s = (s\<lparr>selectedVote := Some v\<rparr>, [SendVote r (user_id u) v])
           \<and> handleVote c v (Rejected m) s
               = (s\<lparr>selectedVote := None, error := Some (or_text m ''Failed to send vote'')\<rparr>,
                  [SendVote r (user_id u) v]))"
  by (auto simp: handleVote_def handleVote_begin_def handleVote_settle_def canVote_def truthy_def
           split: option.splits)

theorem handleVote_guarded_witness:
  "canVote joined_state \<and> roomId joined_state = Some ''R1'' \<and> user joined_state = Some ann
   \<and> hubConnection joined_state = Some (HubConnection 1)
   \<and> handleVote_begin joined_state ''5'' joined_state
       = (joined_state\<lparr>selectedVote := Some ''5''\<rparr>, Some (SendVote ''R1'' ''P1'' ''5''))
   \<and> handleVote joined_state ''5'' Resolved joined_state
       = (joined_state\<lparr>selectedVote := Some ''5''\<rparr>, [SendVote ''R1'' ''P1'' ''5''])
   \<and> handleVote joined_state ''5'' (Rejected None) joined_state
       = (joined_state\<lparr>selectedVote := None, error := Some ''Failed to send vote''\<rparr>,
          [SendVote ''R1'' ''P1'' ''5''])
   \<and> canVote voted_state = False
   \<and> handleVote voted_state ''8'' Resolved voted_state = (voted_state, [])
   \<and> truthy (roomId initial_state) = False
   \<and> handleVote initial_state ''8'' Resolved initial_state = (initial_state, [])"
proof -
  have h: "canVote joined_state" "roomId joined_state = Some ''R1''" "''R1'' \<noteq> []"
    "user joined_state = Some ann" "hubConnection joined_state = Some (HubConnection 1)"
    by (simp_all add: joined_state_def canVote_def)
  have n: "\<not> canVote voted_state" by (simp add: voted_state_def canVote_def)
  have i: "\<not> truthy (roomId initial_state)" by (simp add: initial_state_def truthy_def)
  have u: "user_id ann = ''P1''" "or_text None ''Failed to send vote'' = ''Failed to send vote''"
    by (simp_all add: ann_def or_text_def)
  from handleVote_guarded[of joined_state "''5''" Resolved joined_state "''R1''" ann "HubConnection 1" None] h u
  have 1: "handleVote_begin joined_state ''5'' joined_state
       = (joined_state\<lparr>selectedVote := Some ''5''\<rparr>, Some (SendVote ''R1'' ''P1'' ''5''))"
    and 2: "handleVote joined_state ''5'' Resolved joined_state
       = (joined_state\<lparr>selectedVote := Some ''5''\<rparr>, [SendVote ''R1'' ''P1'' ''5''])"
    and 3: "handleVote joined_state ''5'' (Rejected None) joined_state
       = (joined_state\<lparr>selectedVote := None, error := Some ''Failed to send vote''\<rparr>,
          [SendVote ''R1'' ''P1'' ''5''])"
    by simp_all
  from handleVote_guarded[of voted_state "''8''" Resolved voted_state] n
  have 4: "handleVote voted_state ''8'' Resolved voted_state = (voted_state, [])" by blast
  from handleVote_guarded[of initial_state "''8''" Resolved initial_state] i
  have 5: "handleVote initial_state ''8'' Resolved initial_state = (initial_state, [])" by blast
  show ?thesis using h n i 1 2 3 4 5 by simp
qed

text \<open>
  C4 as stated fails: after the connection has closed, \<open>onclose\<close> has removed the connection
  handle while the page still lets the user vote (\<open>canVote\<close> is true); a vote then records
  no selection and issues no hub operation.
\<close>

theorem handleVote_counterexample:
  "canVote (onclose joined_state)
   \<and> page_shown (onclose joined_state)
   \<and> handleVote (onclose joined_state) ''5'' Resolved (onclose joined_state) = (onclose joined_state, [])
   \<and> selectedVote (onclose joined_state) = None"
  by (simp add: handleVote_def handleVote_begin_def onclose_def joined_state_def canVote_def
      page_shown_def)

section \<open>Handlers that read the render they were made in\<close>

text \<open>
  A \<open>VotesRevealed\<close> event writes a value fixed by the render the handler was made in, so
  a repeated arrival changes nothing.
\<close>

lemma on_VotesRevealed_twice: "on_VotesRevealed c (on_VotesRevealed c s) = on_VotesRevealed c s"
  by (simp add: on_VotesRevealed_def)

lemma on_VotesRevealed_no_toggle:
  "visibility (on_VotesRevealed c (on_VotesRevealed c s)) = visibility (on_VotesRevealed c s)"
  by (simp add: on_VotesRevealed_twice)

lemma on_VotesRevealed_visibility:
  "visibility (on_VotesRevealed c s) = (if showVotesState c then Collecting else Revealed)"
  by (simp add: on_VotesRevealed_def visibility_def)

text \<open>
  C1 at the failing input. After the first join the handlers of the live connection are
  closures of the first render, where \<open>showVotesState\<close> is false. The first \<open>VotesRevealed\<close>
  event moves the visibility state from \<open>Collecting\<close> to \<open>Revealed\<close>; the second one writes
  the same value again, so the state stays \<open>Revealed\<close> instead of returning to
  \<open>Collecting\<close>.
\<close>

theorem VotesRevealed_second_arrival:
  "snd (snd first_join) = Some initial_state
   \<and> visibility (fst first_join) = Collecting
   \<and> visibility (on_VotesRevealed initial_state (fst first_join)) = Revealed
   \<and> visibility (on_VotesRevealed initial_state (on_VotesRevealed initial_state (fst first_join)))
       = Revealed
   \<and> canVote (on_VotesRevealed initial_state (on_VotesRevealed initial_state (fst first_join)))
       = False"
  by (simp add: first_join_value on_VotesRevealed_def visibility_def canVote_def
      initial_state_def joined_state_def)

text \<open>
  What \<open>handleLeaveRoom\<close> resets, whatever \<open>LeaveRoom\<close> answers: everything but
  \<open>showVotesState\<close>; the connection handle is reset when the closure holds one.
\<close>

lemma handleLeaveRoom_state:
  "fst (handleLeaveRoom c leave_res s) =
     initial_state\<lparr>showVotesState := showVotesState s,
                   hubConnection := (case hubConnection c of None \<Rightarrow> hubConnection s | Some h \<Rightarrow> None)\<rparr>"
  by (simp add: handleLeaveRoom_def initial_state_def split: option.splits)

text \<open>
  C3 at the failing input: the first join, one \<open>VotesRevealed\<close> event, then the user
  leaves. Leaving while the votes are shown resets the room id, the user,
  the connection handle, the replica, the selection and \<open>canVote\<close>, also when \<open>LeaveRoom\<close>
  is rejected, but \<open>showVotesState\<close> is not among the resets: the visibility state stays
  \<open>Revealed\<close>.
\<close>

theorem handleLeaveRoom_keeps_votes_shown:
  "visibility (on_VotesRevealed initial_state (fst first_join)) = Revealed
   \<and> handleLeaveRoom (on_VotesRevealed initial_state (fst first_join)) Resolved
         (on_VotesRevealed initial_state (fst first_join))
       = (initial_state\<lparr>showVotesState := True\<rparr>, [LeaveRoom ''R1'' ''P1'', Stop])
   \<and> handleLeaveRoom (on_VotesRevealed initial_state (fst first_join)) (Rejected None)
         (on_VotesRevealed initial_state (fst first_join))
       = (initial_state\<lparr>showVotesState := True\<rparr>, [LeaveRoom ''R1'' ''P1''])
   \<and> visibility (initial_state\<lparr>showVotesState := True\<rparr>) = Revealed
   \<and> canVote (initial_state\<lparr>showVotesState := True\<rparr>)"
  by (simp add: first_join_value on_VotesRevealed_def handleLeaveRoom_def joined_state_def
      initial_state_def visibility_def canVote_def ann_def)

text \<open>
  The two branches of \<open>onreconnected\<close>: with a room id and a user in its closure it
  re-invokes \<open>JoinRoom\<close> with exactly those; without them it issues nothing and resets
  the session. The closure made by a join is the render the join started from.
\<close>

lemma onreconnected_with_identity:
  "roomId c = Some r \<Longrightarrow> r \<noteq> [] \<Longrightarrow> user c = Some u \<Longrightarrow>
   onreconnected c connection Resolved leave_res s
     = (s\<lparr>error := None, hubConnection := Some connection\<rparr>, [JoinRoom r u])"
  by (simp add: onreconnected_def)

lemma onreconnected_without_identity:
  "roomId c = None \<Longrightarrow> hubConnection c = None \<Longrightarrow>
   onreconnected c connection join_res leave_res s
     = (initial_state\<lparr>showVotesState := showVotesState s, hubConnection := Some connection\<rparr>, [])"
  by (simp add: onreconnected_def handleLeaveRoom_def initial_state_def)

lemma handleJoinRoom_live:
  "handleJoinRoom c m newRoomId newUserName created added fetched connection start_res join_res s
     = (s', calls, Some l) \<Longrightarrow> l = m \<and> hubConnection m = None"
  by (auto simp: handleJoinRoom_def setupSignalR_def Let_def
           split: sum.splits option.splits Outcome.splits prod.splits)

text \<open>
  C5 at the failing input. After the first join the session holds room R1 and participant
  P1, while the \<open>onreconnected\<close> handler is a closure of the first render, in which
  \<open>roomId\<close> and \<open>user\<close> are \<open>null\<close>. On the reconnected notification it issues no
  \<open>JoinRoom\<close>: it takes the branch for a missing room or user and resets the session.
\<close>

theorem onreconnected_after_first_join:
  "roomId (fst first_join) = Some ''R1''
   \<and> user (fst first_join) = Some ann
   \<and> snd (snd first_join) = Some initial_state
   \<and> onreconnected initial_state (HubConnection 1) Resolved Resolved (fst first_join)
       = (initial_state\<lparr>hubConnection := Some (HubConnection 1)\<rparr>, [])"
  by (simp add: first_join_value onreconnected_def handleLeaveRoom_def initial_state_def
      joined_state_def)

end
